theory Spec2Isabelle
  imports Main
begin

section \<open>The application shell of the memory chatbot (src/App.js)\<close>

text \<open>
  \<^verbatim>\<open>App\<close> is a React function component. It owns two state cells,
  \<^verbatim>\<open>const [view, setView] = useState('chat')\<close> and
  \<^verbatim>\<open>const [isAdminLoggedIn, setIsAdminLoggedIn] = useState(false)\<close>,
  and returns an element tree: a header with two navigation buttons, a main area holding
  either \<^verbatim>\<open>ChatInterface\<close> or \<^verbatim>\<open>AdminDashboard\<close>, and a footer.

  The two cells become a record that is passed explicitly; a state setter becomes a
  function from the state to the updated state. \<^verbatim>\<open>view\<close> is a JavaScript string and
  stays a string here, so that "it is always one of the two values" is a property to be
  proved rather than a property of a type.
\<close>

subsection \<open>State\<close>

record app_state =
  view :: string
  isAdminLoggedIn :: bool

text \<open>The initial values given to the two \<^verbatim>\<open>useState\<close> calls (lines 9 and 10).\<close>

definition initial_state :: app_state where
  "initial_state = \<lparr>view = ''chat'', isAdminLoggedIn = False\<rparr>"

text \<open>The two setters returned by \<^verbatim>\<open>useState\<close>: each replaces its own cell.\<close>

definition setView :: "string \<Rightarrow> app_state \<Rightarrow> app_state" where
  "setView v s = s\<lparr>view := v\<rparr>"

definition setIsAdminLoggedIn :: "bool \<Rightarrow> app_state \<Rightarrow> app_state" where
  "setIsAdminLoggedIn b s = s\<lparr>isAdminLoggedIn := b\<rparr>"

subsection \<open>The rendered element tree\<close>

text \<open>
  A \<^verbatim>\<open><button>\<close> of the header: its \<^verbatim>\<open>className\<close>, its \<^verbatim>\<open>onClick\<close>
  handler and its text. Text outside ASCII is written as its UTF-8 bytes.
\<close>

record button =
  className :: string
  onClick :: "app_state \<Rightarrow> app_state"
  caption :: string

text \<open>
  The child of \<^verbatim>\<open><main>\<close>: \<^verbatim>\<open><ChatInterface />\<close> takes no props;
  \<^verbatim>\<open><AdminDashboard isLoggedIn=... setIsLoggedIn=... />\<close> takes the flag and its setter.
\<close>

datatype surface =
    is_ChatInterface: ChatInterface
  | is_AdminDashboard: AdminDashboard (isLoggedIn: bool)
      (setIsLoggedIn: "bool \<Rightarrow> app_state \<Rightarrow> app_state")

record app_element =
  heading :: string
  subtitle :: string
  nav_buttons :: "button list"
  app_main :: surface
  app_footer :: string

definition App :: "app_state \<Rightarrow> app_element" where
  "App s =
     \<lparr>heading = [CHR 0xF0, CHR 0x9F, CHR 0xA7, CHR 0xA0] @ '' Memory Chatbot'',
      subtitle = ''Long-term memory AI that remembers across conversations'',
      nav_buttons =
        [\<lparr>className = (if view s = ''chat'' then ''active'' else ''''),
          onClick = setView ''chat'',
          caption = [CHR 0xF0, CHR 0x9F, CHR 0x92, CHR 0xAC] @ '' Chat''\<rparr>,
         \<lparr>className = (if view s = ''admin'' then ''active'' else ''''),
          onClick = setView ''admin'',
          caption = [CHR 0xF0, CHR 0x9F, CHR 0x94, CHR 0x90] @ '' Admin Dashboard''\<rparr>],
      app_main =
        (if view s = ''chat'' then ChatInterface
         else AdminDashboard (isAdminLoggedIn s) setIsAdminLoggedIn),
      app_footer =
        ''Built with governed long-term memory '' @ [CHR 0xE2, CHR 0x80, CHR 0xA2]
        @ '' No GPU required '' @ [CHR 0xE2, CHR 0x80, CHR 0xA2]
        @ '' CPU-only processing''\<rparr>"

subsection \<open>Events\<close>

text \<open>
  The two navigation controls, in the order of the source. \<open>view_value\<close> is the string
  a control stands for: the one its \<^verbatim>\<open>className\<close> test compares with and its handler
  stores. \<open>nav_button\<close> finds the control's button among the rendered ones.
\<close>

datatype nav_control = ChatButton | AdminButton

fun view_value :: "nav_control \<Rightarrow> string" where
  "view_value ChatButton = ''chat''"
| "view_value AdminButton = ''admin''"

fun nav_button :: "nav_control \<Rightarrow> app_element \<Rightarrow> button" where
  "nav_button ChatButton v = nav_buttons v ! 0"
| "nav_button AdminButton v = nav_buttons v ! Suc 0"

text \<open>
  What can happen to the shell: a click on a navigation button runs the handler that the
  current render attached to it; a call of the setter handed to the admin dashboard
  runs \<^verbatim>\<open>setIsAdminLoggedIn\<close> (React keeps a setter's identity over all renders, so
  the call is allowed in every state, also from a dashboard that has been unmounted since).
\<close>

datatype event = Activate nav_control | SetIsLoggedIn bool

fun step :: "event \<Rightarrow> app_state \<Rightarrow> app_state" where
  "step (Activate c) s = onClick (nav_button c (App s)) s"
| "step (SetIsLoggedIn b) s = setIsAdminLoggedIn b s"

fun run :: "event list \<Rightarrow> app_state \<Rightarrow> app_state" where
  "run [] s = s"
| "run (e # es) s = run es (step e s)"

text \<open>Which surface a render mounts.\<close>

definition chat_mounted :: "app_element \<Rightarrow> bool" where
  "chat_mounted v = is_ChatInterface (app_main v)"

definition admin_mounted :: "app_element \<Rightarrow> bool" where
  "admin_mounted v = is_AdminDashboard (app_main v)"

section \<open>Properties\<close>

subsection \<open>Helper facts\<close>

lemma step_Activate: "step (Activate c) s = s\<lparr>view := view_value c\<rparr>"
  by (cases c) (simp_all add: App_def setView_def)

lemma step_SetIsLoggedIn: "step (SetIsLoggedIn b) s = s\<lparr>isAdminLoggedIn := b\<rparr>"
  by (simp add: setIsAdminLoggedIn_def)

lemma view_run_valid:
  "view s = ''chat'' \<or> view s = ''admin'' \<Longrightarrow>
   view (run es s) = ''chat'' \<or> view (run es s) = ''admin''"
proof (induction es arbitrary: s)
  case Nil
  then show ?case by simp
next
  case (Cons e es)
  have "view (step e s) = ''chat'' \<or> view (step e s) = ''admin''"
  proof (cases e)
    case (Activate c)
    then show ?thesis by (cases c) (simp_all add: step_Activate del: step.simps)
  next
    case (SetIsLoggedIn b)
    with Cons.prems show ?thesis by (simp add: step_SetIsLoggedIn del: step.simps)
  qed
  then show ?case using Cons.IH by simp
qed

lemma view_reachable:
  "view (run es initial_state) = ''chat'' \<or> view (run es initial_state) = ''admin''"
  by (rule view_run_valid) (simp add: initial_state_def)

lemma chat_mounted_iff: "chat_mounted (App s) = (view s = ''chat'')"
  by (simp add: chat_mounted_def App_def)

lemma admin_mounted_iff: "admin_mounted (App s) = (view s \<noteq> ''chat'')"
  by (simp add: admin_mounted_def App_def)

subsection \<open>Exactly one surface is mounted\<close>

text \<open>
  Claim C1. In every state reached from the initial one by any sequence of events, the
  render mounts the chat surface exactly when \<open>view\<close> is \<open>''chat''\<close>, the admin surface
  exactly when \<open>view\<close> is \<open>''admin''\<close>, and exactly one of the two surfaces: never both,
  never neither.
\<close>

theorem render_mounts_exactly_one:
  "chat_mounted (App (run es initial_state)) = (view (run es initial_state) = ''chat'') \<and>
   admin_mounted (App (run es initial_state)) = (view (run es initial_state) = ''admin'') \<and>
   chat_mounted (App (run es initial_state)) \<noteq> admin_mounted (App (run es initial_state))"
proof -
  let ?s = "run es initial_state"
  have "view ?s = ''chat'' \<or> view ?s = ''admin''" by (rule view_reachable)
  then show ?thesis
    by (auto simp add: chat_mounted_iff admin_mounted_iff)
qed

subsection \<open>The initial state\<close>

text \<open>
  Claim C2. At mount, before any event, \<open>view\<close> is \<open>''chat''\<close> and the flag is false; the
  first render therefore shows the chat surface and not the admin surface.
\<close>

theorem initial_render:
  "view (run [] initial_state) = ''chat'' \<and>
   isAdminLoggedIn (run [] initial_state) = False \<and>
   app_main (App (run [] initial_state)) = ChatInterface \<and>
   chat_mounted (App initial_state) \<and> \<not> admin_mounted (App initial_state)"
  by (simp add: initial_state_def App_def chat_mounted_def admin_mounted_def)

subsection \<open>Navigation\<close>

text \<open>
  Claim C3. After any non-empty sequence of navigation-control activations, from any
  state, \<open>view\<close> is the view value of the control activated last. Activating the same
  control twice in a row gives the same state as activating it once, and activating the
  control of the view that is already shown leaves the whole state as it is.
\<close>

theorem view_after_activations:
  "(cs \<noteq> [] \<longrightarrow> view (run (map Activate cs) s) = view_value (last cs)) \<and>
   step (Activate c) (step (Activate c) s) = step (Activate c) s \<and>
   (view s = view_value c \<longrightarrow> step (Activate c) s = s)"
proof (intro conjI impI)
  assume "cs \<noteq> []"
  then show "view (run (map Activate cs) s) = view_value (last cs)"
  proof (induction cs arbitrary: s)
    case Nil
    then show ?case by simp
  next
    case (Cons d ds)
    show ?case
    proof (cases "ds = []")
      case True
      then show ?thesis by (simp add: step_Activate del: step.simps)
    next
      case False
      with Cons.IH [of "step (Activate d) s"] show ?thesis by simp
    qed
  qed
next
  show "step (Activate c) (step (Activate c) s) = step (Activate c) s"
    by (simp add: step_Activate del: step.simps)
next
  assume "view s = view_value c"
  then show "step (Activate c) s = s"
    by (simp add: step_Activate del: step.simps)
qed

theorem view_after_activations_witness:
  "[AdminButton, AdminButton, ChatButton] \<noteq> [] \<and>
   view (run (map Activate [AdminButton, AdminButton, ChatButton])
          \<lparr>view = ''admin'', isAdminLoggedIn = True\<rparr>)
     = view_value (last [AdminButton, AdminButton, ChatButton]) \<and>
   view \<lparr>view = ''admin'', isAdminLoggedIn = True\<rparr> = view_value AdminButton \<and>
   step (Activate AdminButton) \<lparr>view = ''admin'', isAdminLoggedIn = True\<rparr>
     = \<lparr>view = ''admin'', isAdminLoggedIn = True\<rparr>"
  using view_after_activations
    [of "[AdminButton, AdminButton, ChatButton]"
        "\<lparr>view = ''admin'', isAdminLoggedIn = True\<rparr>" AdminButton]
  by (simp add: App_def setView_def)

subsection \<open>The write capability of the admin surface\<close>

text \<open>
  Claim C4. When \<open>view\<close> is \<open>''admin''\<close> and the admin surface calls the setter it was
  rendered with on \<open>True\<close>, the next render mounts the admin surface with
  \<open>isLoggedIn = True\<close>, and \<open>view\<close> is what it was.
\<close>

theorem login_seen_on_next_render:
  "view s = ''admin'' \<Longrightarrow>
   app_main (App (setIsLoggedIn (app_main (App s)) True s))
     = AdminDashboard True setIsAdminLoggedIn \<and>
   app_main (App (step (SetIsLoggedIn True) s)) = AdminDashboard True setIsAdminLoggedIn \<and>
   view (setIsLoggedIn (app_main (App s)) True s) = view s \<and>
   view (step (SetIsLoggedIn True) s) = view s"
  by (simp add: App_def setIsAdminLoggedIn_def)

theorem login_seen_on_next_render_witness:
  "view \<lparr>view = ''admin'', isAdminLoggedIn = False\<rparr> = ''admin'' \<and>
   isLoggedIn (app_main (App \<lparr>view = ''admin'', isAdminLoggedIn = False\<rparr>)) = False \<and>
   isLoggedIn (app_main (App (step (SetIsLoggedIn True)
       \<lparr>view = ''admin'', isAdminLoggedIn = False\<rparr>))) = True \<and>
   view (step (SetIsLoggedIn True) \<lparr>view = ''admin'', isAdminLoggedIn = False\<rparr>) = ''admin''"
  using login_seen_on_next_render [of "\<lparr>view = ''admin'', isAdminLoggedIn = False\<rparr>"]
  by (simp add: App_def setIsAdminLoggedIn_def)

text \<open>
  Claim C5. From a state showing the admin surface with flag \<open>b\<close>, switching to the chat
  view (which unmounts the admin surface) and back keeps the flag: the admin surface
  mounted again is given \<open>isLoggedIn = b\<close>.
\<close>

theorem flag_survives_remount:
  "view s = ''admin'' \<Longrightarrow>
   chat_mounted (App (step (Activate ChatButton) s)) \<and>
   \<not> admin_mounted (App (step (Activate ChatButton) s)) \<and>
   isAdminLoggedIn (step (Activate ChatButton) s) = isAdminLoggedIn s \<and>
   isAdminLoggedIn (run [Activate ChatButton, Activate AdminButton] s) = isAdminLoggedIn s \<and>
   app_main (App (run [Activate ChatButton, Activate AdminButton] s))
     = AdminDashboard (isAdminLoggedIn s) setIsAdminLoggedIn"
  by (simp add: App_def setView_def chat_mounted_def admin_mounted_def)

theorem flag_survives_remount_witness:
  "view \<lparr>view = ''admin'', isAdminLoggedIn = True\<rparr> = ''admin'' \<and>
   chat_mounted (App (step (Activate ChatButton) \<lparr>view = ''admin'', isAdminLoggedIn = True\<rparr>)) \<and>
   isLoggedIn (app_main (App (run [Activate ChatButton, Activate AdminButton]
       \<lparr>view = ''admin'', isAdminLoggedIn = True\<rparr>))) = True"
  using flag_survives_remount [of "\<lparr>view = ''admin'', isAdminLoggedIn = True\<rparr>"]
  by simp

text \<open>
  Claim C6. A navigation-control activation changes \<open>view\<close> only: the flag is what it
  was. The setter given to the admin surface changes the flag only: whatever boolean it
  is called on, and in whatever state, \<open>view\<close> is what it was.
\<close>

theorem handlers_change_own_cell_only:
  "isAdminLoggedIn (step (Activate c) s) = isAdminLoggedIn s \<and>
   isAdminLoggedIn (onClick (nav_button c (App s)) t) = isAdminLoggedIn t \<and>
   view (step (SetIsLoggedIn b) s) = view s \<and>
   (admin_mounted (App s) \<longrightarrow> view (setIsLoggedIn (app_main (App s)) b t) = view t)"
proof (intro conjI impI)
  show "isAdminLoggedIn (step (Activate c) s) = isAdminLoggedIn s"
    by (simp add: step_Activate del: step.simps)
  show "isAdminLoggedIn (onClick (nav_button c (App s)) t) = isAdminLoggedIn t"
    by (cases c) (simp_all add: App_def setView_def)
  show "view (step (SetIsLoggedIn b) s) = view s"
    by (simp add: step_SetIsLoggedIn del: step.simps)
next
  assume "admin_mounted (App s)"
  then have "view s \<noteq> ''chat''" by (simp add: admin_mounted_iff)
  then show "view (setIsLoggedIn (app_main (App s)) b t) = view t"
    by (simp add: App_def setIsAdminLoggedIn_def)
qed

theorem handlers_change_own_cell_only_witness:
  "admin_mounted (App \<lparr>view = ''admin'', isAdminLoggedIn = False\<rparr>) \<and>
   view (setIsLoggedIn (app_main (App \<lparr>view = ''admin'', isAdminLoggedIn = False\<rparr>)) True
          \<lparr>view = ''admin'', isAdminLoggedIn = False\<rparr>) = ''admin'' \<and>
   isAdminLoggedIn (step (Activate ChatButton) \<lparr>view = ''admin'', isAdminLoggedIn = False\<rparr>)
     = False"
  using handlers_change_own_cell_only
    [of ChatButton "\<lparr>view = ''admin'', isAdminLoggedIn = False\<rparr>"
        "\<lparr>view = ''admin'', isAdminLoggedIn = False\<rparr>" True]
  by (simp add: admin_mounted_iff)

subsection \<open>Marking of the navigation controls\<close>

text \<open>
  Claim C7. In every state, a navigation control carries the class \<open>active\<close> exactly
  when its view value is the current \<open>view\<close>: the chat control iff \<open>view\<close> is
  \<open>''chat''\<close>, the admin control iff \<open>view\<close> is \<open>''admin''\<close>. A control that is not
  active carries the empty class.
\<close>

theorem active_control_matches_view:
  "(className (nav_button c (App s)) = ''active'') = (view s = view_value c) \<and>
   (className (nav_button ChatButton (App s)) = ''active'') = (view s = ''chat'') \<and>
   (className (nav_button AdminButton (App s)) = ''active'') = (view s = ''admin'') \<and>
   (className (nav_button c (App s)) = []) = (view s \<noteq> view_value c)"
  by (cases c) (simp_all add: App_def)

subsection \<open>The view is one of the two values\<close>

text \<open>
  Claim C8. In every state reached from the initial one by navigation-control
  activations and calls of the admin surface's setter, \<open>view\<close> is \<open>''chat''\<close> or
  \<open>''admin''\<close>, and not both: it is the view value of exactly one control.
\<close>

theorem view_is_chat_or_admin:
  "(view (run es initial_state) = ''chat'') \<noteq> (view (run es initial_state) = ''admin'') \<and>
   (\<exists>c. view (run es initial_state) = view_value c)"
proof -
  let ?s = "run es initial_state"
  have v: "view ?s = ''chat'' \<or> view ?s = ''admin''" by (rule view_reachable)
  then have "(view ?s = ''chat'') \<noteq> (view ?s = ''admin'')" by auto
  moreover from v have "\<exists>c. view ?s = view_value c"
  proof
    assume "view ?s = ''chat''"
    then have "view ?s = view_value ChatButton" by simp
    then show ?thesis ..
  next
    assume "view ?s = ''admin''"
    then have "view ?s = view_value AdminButton" by simp
    then show ?thesis ..
  qed
  ultimately show ?thesis by simp
qed

subsection \<open>The chat view does not show the flag\<close>

text \<open>
  Claim C10. Two states whose \<open>view\<close> is \<open>''chat''\<close> render to the same element tree,
  whatever their flags are: header, navigation buttons, chat surface and footer do not
  depend on \<open>isAdminLoggedIn\<close>.
\<close>

theorem chat_render_ignores_flag:
  "view s = ''chat'' \<Longrightarrow> view t = ''chat'' \<Longrightarrow> App s = App t"
  by (simp add: App_def)

theorem chat_render_ignores_flag_witness:
  "view \<lparr>view = ''chat'', isAdminLoggedIn = False\<rparr> = ''chat'' \<and>
   view \<lparr>view = ''chat'', isAdminLoggedIn = True\<rparr> = ''chat'' \<and>
   isAdminLoggedIn \<lparr>view = ''chat'', isAdminLoggedIn = False\<rparr>
     \<noteq> isAdminLoggedIn \<lparr>view = ''chat'', isAdminLoggedIn = True\<rparr> \<and>
   App \<lparr>view = ''chat'', isAdminLoggedIn = False\<rparr>
     = App \<lparr>view = ''chat'', isAdminLoggedIn = True\<rparr>"
  using chat_render_ignores_flag
    [of "\<lparr>view = ''chat'', isAdminLoggedIn = False\<rparr>"
        "\<lparr>view = ''chat'', isAdminLoggedIn = True\<rparr>"]
  by simp

end
